theory Spec2Isabelle
  imports Complex_Main
begin

section \<open>Data model\<close>

text \<open>
  The patient dashboard (\<^verbatim>\<open>PatientDashboard\<close>) keeps the session slot, the busy flag and
  the recommendation list in component state and drives two collaborators: the device
  hook (\<^verbatim>\<open>useArduinoConnection\<close>) and the record store (\<^verbatim>\<open>@/lib/firestore\<close>).
  Each handler is embedded as a function from the state before the call, and the outcomes
  of the calls it awaits, to the state after the call and the list of commands it issued,
  in the order it issued them. A handler runs to completion before the next one starts.
\<close>

text \<open>The declarations of \<^verbatim>\<open>@shared/schema\<close> are not among the sources. The record keeps
  the fields of an assigned exercise that the dashboard reads, and the status takes the
  three values the cards compare it with.\<close>

datatype status = Assigned | In_progress | Completed

record AssignedExercise =
  id :: string
  exerciseId :: string
  exerciseName :: string
  status :: status

text \<open>Parsed JSON values, as \<^verbatim>\<open>response.json()\<close> and \<^verbatim>\<open>JSON.parse\<close> return them. A
  number is its exact value, or an infinity when the literal is beyond the range of a
  double (the flag is set for the negative one); of a finite number only whether it is zero
  is ever observed.\<close>

datatype json =
    JNull
  | JBool bool
  | JNumber rat
  | JInfinity bool
  | JString string
  | JArray "json list"
  | JObject "(string \<times> json) list"

text \<open>A rejected promise or a thrown error, by its \<^verbatim>\<open>message\<close> (empty when it has none).\<close>

type_synonym 'a outcome = "string + 'a"

record assignment_fields =
  new_status :: status
  new_completedAt :: "nat option"

record toast =
  title :: string
  description :: string
  destructive :: bool

datatype effect =
    StartRecording string
  | StopRecording
  | UpdateAssignedExercise string string assignment_fields
  | CreateExerciseProgress string string string string nat
  | UpdateExerciseProgress string string status nat nat
  | Toast toast
  | ConsoleError string
  | ScheduleFetch nat
  | PostPatientQuery string string

text \<open>
  \<^verbatim>\<open>CreateExerciseProgress uid patientId exerciseId assignedExerciseId sessionStartTime\<close> and
  \<^verbatim>\<open>UpdateExerciseProgress uid progressId status sessionEndTime completedAt\<close> carry the
  fields of the object literal the source passes. \<^verbatim>\<open>ScheduleFetch ms\<close> is the
  \<^verbatim>\<open>setTimeout\<close> that runs the recommendation fetcher later, and
  \<^verbatim>\<open>PostPatientQuery patientId condition\<close> the request the fetcher sends.
\<close>

record dashboard =
  userProfile :: "string option"
  assignedExercises :: "AssignedExercise list"
  recommendations :: "json list"
  loadingExercises :: bool
  loadingRecommendations :: bool
  sessionLoading :: bool
  activeAssignmentId :: "string option"
  activeProgressId :: "string option"
  connected :: bool
  isRecording :: bool

text \<open>\<^verbatim>\<open>userProfile\<close> holds the \<^verbatim>\<open>uid\<close> of the signed-in profile, \<^verbatim>\<open>None\<close> when there
  is no profile. \<^verbatim>\<open>connected\<close> and \<^verbatim>\<open>isRecording\<close> are the observable fields of the
  device hook.\<close>

definition truthy :: "string option \<Rightarrow> bool" where
  \<comment> \<open>JavaScript truthiness of a \<^verbatim>\<open>string | null\<close>: neither null nor the empty string.\<close>
  "truthy x = (case x of None \<Rightarrow> False | Some v \<Rightarrow> v \<noteq> [])"

definition message_or :: "string \<Rightarrow> string \<Rightarrow> string" where
  \<comment> \<open>\<^verbatim>\<open>error?.message || fallback\<close>\<close>
  "message_or m fallback = (if m = [] then fallback else m)"

definition stopRecording :: "dashboard \<Rightarrow> dashboard" where
  \<comment> \<open>Modelled from the spec: the device hook is not part of the sources; the Device
     Gateway's \<^verbatim>\<open>stopRecording() -> void\<close> ends the recording and does not fail.\<close>
  "stopRecording s = s\<lparr>isRecording := False\<rparr>"

definition recordingStarted :: "dashboard \<Rightarrow> dashboard" where
  \<comment> \<open>Modelled from the spec: a resolved \<^verbatim>\<open>startRecording(exerciseId)\<close> of the Device
     Gateway leaves the device recording.\<close>
  "recordingStarted s = s\<lparr>isRecording := True\<rparr>"

section \<open>Starting a session\<close>

record start_io =
  startRecording_result :: "unit outcome"
  markInProgress_result :: "unit outcome"
  createProgress_result :: "string outcome"
  revert_result :: "unit outcome"

definition toast_not_connected :: toast where
  "toast_not_connected =
     \<lparr>title = ''Device not connected'',
      description = ''Connect your hardware device before starting the session.'',
      destructive = True\<rparr>"

definition toast_busy :: toast where
  "toast_busy =
     \<lparr>title = ''Session already in progress'',
      description = ''Finish the current exercise before starting another.'',
      destructive = False\<rparr>"

definition toast_started :: "AssignedExercise \<Rightarrow> toast" where
  "toast_started exercise =
     \<lparr>title = ''Exercise started'',
      description = exerciseName exercise @ '' session has begun.'',
      destructive = False\<rparr>"

definition toast_start_failed :: "string \<Rightarrow> toast" where
  "toast_start_failed m =
     \<lparr>title = ''Could not start session'',
      description = message_or m ''Please try again.'',
      destructive = True\<rparr>"

definition start_try ::
  "start_io \<Rightarrow> nat \<Rightarrow> string \<Rightarrow> AssignedExercise \<Rightarrow> dashboard
     \<Rightarrow> unit outcome \<times> dashboard \<times> effect list" where
  \<comment> \<open>The \<^verbatim>\<open>try\<close> block of \<^verbatim>\<open>handleStartExercise\<close>: the first rejected call ends it.\<close>
  "start_try io now u exercise s =
     (let c1 = StartRecording (exerciseId exercise);
          c2 = UpdateAssignedExercise u (id exercise)
                 \<lparr>new_status = In_progress, new_completedAt = None\<rparr>;
          c3 = CreateExerciseProgress u u (exerciseId exercise) (id exercise) now
      in case startRecording_result io of
           Inl e \<Rightarrow> (Inl e, s, [c1])
         | Inr _ \<Rightarrow>
             (let s1 = recordingStarted s
              in case markInProgress_result io of
                   Inl e \<Rightarrow> (Inl e, s1, [c1, c2])
                 | Inr _ \<Rightarrow>
                     (case createProgress_result io of
                        Inl e \<Rightarrow> (Inl e, s1, [c1, c2, c3])
                      | Inr pid \<Rightarrow>
                          (Inr (),
                           s1\<lparr>activeAssignmentId := Some (id exercise),
                              activeProgressId := Some pid\<rparr>,
                           [c1, c2, c3, Toast (toast_started exercise)]))))"

definition start_catch ::
  "start_io \<Rightarrow> string \<Rightarrow> AssignedExercise \<Rightarrow> string \<Rightarrow> dashboard
     \<Rightarrow> dashboard \<times> effect list" where
  \<comment> \<open>The \<^verbatim>\<open>catch\<close> block: stop the device, write the status the exercise had back,
     swallow a failure of that write, tell the user.\<close>
  "start_catch io u exercise m s =
     (let revert = UpdateAssignedExercise u (id exercise)
                     \<lparr>new_status = status exercise, new_completedAt = None\<rparr>
      in (stopRecording s,
          [ConsoleError ''Error starting exercise:'', StopRecording, revert]
          @ (case revert_result io of
               Inl _ \<Rightarrow> [ConsoleError ''Failed to revert exercise status:'']
             | Inr _ \<Rightarrow> [])
          @ [Toast (toast_start_failed m)]))"

definition handleStartExercise ::
  "start_io \<Rightarrow> nat \<Rightarrow> AssignedExercise \<Rightarrow> dashboard \<Rightarrow> dashboard \<times> effect list" where
  "handleStartExercise io now exercise s =
     (if \<not> truthy (userProfile s) then (s, [])
      else if \<not> connected s then (s, [Toast toast_not_connected])
      else if sessionLoading s \<or> truthy (activeAssignmentId s) then (s, [Toast toast_busy])
      else
        (let u = the (userProfile s);
             s1 = s\<lparr>sessionLoading := True\<rparr>;
             (r, s2, cs) = start_try io now u exercise s1;
             (s3, cs3) = (case r of
                            Inr _ \<Rightarrow> (s2, cs)
                          | Inl m \<Rightarrow>
                              (let (s', cs') = start_catch io u exercise m s2
                               in (s', cs @ cs')))
         in (s3\<lparr>sessionLoading := False\<rparr>, cs3)))"

section \<open>Completing a session\<close>

record complete_io =
  completeAssignment_result :: "unit outcome"
  completeProgress_result :: "unit outcome"

definition toast_completed :: toast where
  "toast_completed =
     \<lparr>title = ''Exercise completed'',
      description = ''Great job! Exercise has been marked complete.'',
      destructive = False\<rparr>"

definition toast_complete_failed :: "string \<Rightarrow> toast" where
  "toast_complete_failed m =
     \<lparr>title = ''Could not complete exercise'',
      description = message_or m ''Please try again.'',
      destructive = True\<rparr>"

definition complete_try ::
  "complete_io \<Rightarrow> nat \<Rightarrow> string \<Rightarrow> string \<Rightarrow> dashboard
     \<Rightarrow> unit outcome \<times> dashboard \<times> effect list" where
  \<comment> \<open>The \<^verbatim>\<open>try\<close> block of \<^verbatim>\<open>handleCompleteExercise\<close>; \<^verbatim>\<open>completedAt\<close> is the clock
     value \<^verbatim>\<open>now\<close>.\<close>
  "complete_try io now u a s =
     (let s1 = stopRecording s;
          c1 = StopRecording;
          c2 = UpdateAssignedExercise u a
                 \<lparr>new_status = Completed, new_completedAt = Some now\<rparr>;
          done = [Toast toast_completed, ScheduleFetch 2000]
      in case completeAssignment_result io of
           Inl e \<Rightarrow> (Inl e, s1, [c1, c2])
         | Inr _ \<Rightarrow>
             (if truthy (activeProgressId s) then
                (let c3 = UpdateExerciseProgress u (the (activeProgressId s)) Completed now now
                 in case completeProgress_result io of
                      Inl e \<Rightarrow> (Inl e, s1, [c1, c2, c3])
                    | Inr _ \<Rightarrow> (Inr (), s1, [c1, c2, c3] @ done))
              else (Inr (), s1, [c1, c2] @ done)))"

definition handleCompleteExercise ::
  "complete_io \<Rightarrow> nat \<Rightarrow> dashboard \<Rightarrow> dashboard \<times> effect list" where
  "handleCompleteExercise io now s =
     (if \<not> truthy (userProfile s) \<or> \<not> truthy (activeAssignmentId s) then (s, [])
      else
        (let u = the (userProfile s);
             a = the (activeAssignmentId s);
             s1 = s\<lparr>sessionLoading := True\<rparr>;
             (r, s2, cs) = complete_try io now u a s1;
             cs3 = (case r of
                      Inr _ \<Rightarrow> cs
                    | Inl m \<Rightarrow>
                        cs @ [ConsoleError ''Error completing exercise:'',
                              Toast (toast_complete_failed m)])
         in (s2\<lparr>activeAssignmentId := None, activeProgressId := None,
                 sessionLoading := False\<rparr>, cs3)))"

section \<open>Reconciliation with the store\<close>

definition reconcile :: "dashboard \<Rightarrow> dashboard \<times> effect list" where
  \<comment> \<open>The effect that watches \<^verbatim>\<open>assignedExercises\<close> and \<^verbatim>\<open>activeAssignmentId\<close>.\<close>
  "reconcile s =
     (if \<not> truthy (activeAssignmentId s) then (s, [])
      else
        (case find (\<lambda>ex. id ex = the (activeAssignmentId s)) (assignedExercises s) of
           Some activeExercise \<Rightarrow>
             (if status activeExercise = Completed then
                (stopRecording (s\<lparr>activeAssignmentId := None, activeProgressId := None\<rparr>),
                 [StopRecording])
              else (s, []))
         | None \<Rightarrow> (s, [])))"

definition onExercisesSnapshot :: "AssignedExercise list \<Rightarrow> dashboard \<Rightarrow> dashboard" where
  \<comment> \<open>The subscription callback on \<^verbatim>\<open>assignedExercises\<close>.\<close>
  "onExercisesSnapshot exercises s =
     s\<lparr>assignedExercises := exercises, loadingExercises := False\<rparr>"

section \<open>Recommendations\<close>

fun js_truthy :: "json \<Rightarrow> bool" where
  "js_truthy JNull = False"
| "js_truthy (JBool b) = b"
| "js_truthy (JNumber n) = (n \<noteq> 0)"
| "js_truthy (JInfinity _) = True"
| "js_truthy (JString s) = (s \<noteq> [])"
| "js_truthy (JArray _) = True"
| "js_truthy (JObject _) = True"

fun member :: "json \<Rightarrow> string \<Rightarrow> json option" where
  \<comment> \<open>\<^verbatim>\<open>data?.key\<close> for a key that no prototype defines: \<^verbatim>\<open>None\<close> is \<^verbatim>\<open>undefined\<close>.\<close>
  "member (JObject kvs) k = map_of kvs k"
| "member _ k = None"

definition truthy_member :: "json \<Rightarrow> string \<Rightarrow> bool" where
  "truthy_member d k = (case member d k of None \<Rightarrow> False | Some v \<Rightarrow> js_truthy v)"

fun isArray :: "json option \<Rightarrow> bool" where
  "isArray (Some (JArray _)) = True"
| "isArray _ = False"

fun elements :: "json option \<Rightarrow> json list" where
  "elements (Some (JArray xs)) = xs"
| "elements _ = []"

text \<open>What one request to the advisory endpoint comes back with: \<^verbatim>\<open>fetch\<close> rejects, or
  it resolves to a response with its \<^verbatim>\<open>ok\<close> flag and the value of \<^verbatim>\<open>response.json()\<close>,
  which rejects (\<^verbatim>\<open>None\<close>) when the body is not JSON.\<close>

datatype advisory_result =
    Fetch_rejected string
  | Fetch_response bool "json option"

definition fetchNetworkRecommendation ::
  "advisory_result \<Rightarrow> dashboard \<Rightarrow> dashboard \<times> effect list" where
  "fetchNetworkRecommendation r s =
     (case userProfile s of
        None \<Rightarrow> (s, [])
      | Some u \<Rightarrow>
          (let post = PostPatientQuery u ''knee_rehabilitation'';
               caught = (s\<lparr>loadingRecommendations := False\<rparr>,
                         [post, ConsoleError ''Error fetching n8n webhook data:''])
           in case r of
                Fetch_rejected _ \<Rightarrow> caught
              | Fetch_response ok body \<Rightarrow>
                  (if \<not> ok then
                     (s\<lparr>loadingRecommendations := False\<rparr>,
                      [post, ConsoleError ''Failed to fetch n8n response''])
                   else
                     (case body of
                        None \<Rightarrow> caught
                      | Some data \<Rightarrow>
                          (let s1 =
                                 (if truthy_member data ''recommendations''
                                     \<and> isArray (member data ''recommendations'')
                                  then s\<lparr>recommendations :=
                                           elements (member data ''recommendations'')\<rparr>
                                  else if truthy_member data ''recommendedExercise''
                                  then s\<lparr>recommendations := [data]\<rparr>
                                  else s)
                           in (s1\<lparr>loadingRecommendations := False\<rparr>, [post]))))))"

definition onRecommendationsSnapshot :: "json list \<Rightarrow> dashboard \<Rightarrow> dashboard" where
  \<comment> \<open>The subscription callback on \<^verbatim>\<open>n8nResponses\<close>; \<^verbatim>\<open>docs\<close> are the documents' data.\<close>
  "onRecommendationsSnapshot docs s =
     s\<lparr>recommendations :=
          concat (map (\<lambda>d. if truthy_member d ''recommendations''
                                \<and> isArray (member d ''recommendations'')
                             then elements (member d ''recommendations'') else []) docs),
       loadingRecommendations := False\<rparr>"

section \<open>The webhook forwarder\<close>










section \<open>Reachable states\<close>

definition initial :: "dashboard \<Rightarrow> bool" where
  \<comment> \<open>The \<^verbatim>\<open>useState\<close> defaults; the profile and the device fields are whatever the
     hooks report.\<close>
  "initial s =
     (assignedExercises s = [] \<and> recommendations s = []
      \<and> loadingExercises s \<and> loadingRecommendations s
      \<and> \<not> sessionLoading s
      \<and> activeAssignmentId s = None \<and> activeProgressId s = None)"

text \<open>
  One event is one handler run to completion, or a change that the hooks report from
  outside: the device connecting, disconnecting, or starting and stopping a recording
  from the connection panel, and the profile changing. The reconciliation effect runs
  after a render that changed one of its dependencies; here it may run after any event.
  A reachable state is \<^verbatim>\<open>run events s\<close> for an initial state \<^verbatim>\<open>s\<close>.
\<close>

datatype event =
    Start_request start_io nat AssignedExercise
  | Stop_request complete_io nat
  | Exercises_update "AssignedExercise list"
  | Effect_run
  | Recommendations_update "json list"
  | Fetch_run advisory_result
  | Device_report bool bool
  | Profile_change "string option"

fun step :: "event \<Rightarrow> dashboard \<Rightarrow> dashboard" where
  "step (Start_request io now exercise) s = fst (handleStartExercise io now exercise s)"
| "step (Stop_request io now) s = fst (handleCompleteExercise io now s)"
| "step (Exercises_update exercises) s = onExercisesSnapshot exercises s"
| "step Effect_run s = fst (reconcile s)"
| "step (Recommendations_update docs) s = onRecommendationsSnapshot docs s"
| "step (Fetch_run r) s = fst (fetchNetworkRecommendation r s)"
| "step (Device_report c rec) s = s\<lparr>connected := c, isRecording := rec\<rparr>"
| "step (Profile_change p) s = s\<lparr>userProfile := p\<rparr>"

definition run :: "event list \<Rightarrow> dashboard \<Rightarrow> dashboard" where
  "run events s = fold step events s"

section \<open>Predicates of the claims\<close>

text \<open>The session slot is the pair of the two identifiers. \<^verbatim>\<open>start_accepted\<close> is the
  state in which \<^verbatim>\<open>handleStartExercise\<close> passes its three early returns.\<close>

definition slot :: "dashboard \<Rightarrow> string option \<times> string option" where
  "slot s = (activeAssignmentId s, activeProgressId s)"

definition slot_paired :: "dashboard \<Rightarrow> bool" where
  "slot_paired s = ((activeAssignmentId s = None) = (activeProgressId s = None))"

definition start_accepted :: "dashboard \<Rightarrow> bool" where
  "start_accepted s =
     (truthy (userProfile s) \<and> connected s \<and> \<not> sessionLoading s
      \<and> \<not> truthy (activeAssignmentId s))"

definition steps_succeeded :: "start_io \<Rightarrow> bool" where
  "steps_succeeded io =
     (\<not> isl (startRecording_result io) \<and> \<not> isl (markInProgress_result io)
      \<and> \<not> isl (createProgress_result io))"

fun device_or_store :: "effect \<Rightarrow> bool" where
  "device_or_store (StartRecording _) = True"
| "device_or_store StopRecording = True"
| "device_or_store (UpdateAssignedExercise _ _ _) = True"
| "device_or_store (CreateExerciseProgress _ _ _ _ _) = True"
| "device_or_store (UpdateExerciseProgress _ _ _ _ _) = True"
| "device_or_store _ = False"

fun failed_run :: "advisory_result \<Rightarrow> bool" where
  "failed_run (Fetch_rejected _) = True"
| "failed_run (Fetch_response ok body) = (\<not> ok \<or> body = None)"





section \<open>Scenario inputs\<close>

text \<open>The concrete inputs at which the properties below are instantiated: one patient,
  the assignment \<^verbatim>\<open>E1\<close>, the progress record \<^verbatim>\<open>P1\<close>, and upstream answers for the
  fetcher and the forwarder. \<^verbatim>\<open>literal_parse\<close> stands for \<^verbatim>\<open>JSON.parse\<close> on the three
  literals and on one number beyond the range of a double, and rejects every other text
  here.\<close>

definition knee_extension :: AssignedExercise where
  "knee_extension =
     \<lparr>id = ''E1'', exerciseId = ''knee-extension'', exerciseName = ''Knee Extension'',
      status = Assigned\<rparr>"

definition fresh_dashboard :: dashboard where
  "fresh_dashboard =
     \<lparr>userProfile = Some ''patient-1'', assignedExercises = [], recommendations = [],
      loadingExercises = True, loadingRecommendations = True, sessionLoading = False,
      activeAssignmentId = None, activeProgressId = None,
      connected = True, isRecording = False\<rparr>"

definition idle_dashboard :: dashboard where
  "idle_dashboard = onExercisesSnapshot [knee_extension] fresh_dashboard"

definition all_ok :: start_io where
  "all_ok = \<lparr>startRecording_result = Inr (), markInProgress_result = Inr (),
             createProgress_result = Inr ''P1'', revert_result = Inr ()\<rparr>"

definition active_dashboard :: dashboard where
  "active_dashboard = fst (handleStartExercise all_ok 100 knee_extension idle_dashboard)"

definition writes_ok :: complete_io where
  "writes_ok = \<lparr>completeAssignment_result = Inr (), completeProgress_result = Inr ()\<rparr>"

definition assignment_write_fails :: complete_io where
  "assignment_write_fails =
     \<lparr>completeAssignment_result = Inl ''unavailable'', completeProgress_result = Inr ()\<rparr>"

definition recording_fails :: start_io where
  "recording_fails = all_ok\<lparr>startRecording_result := Inl ''port closed''\<rparr>"

definition completed_by_backend :: dashboard where
  "completed_by_backend =
     onExercisesSnapshot [knee_extension\<lparr>status := Completed\<rparr>] active_dashboard"

definition squat :: json where
  "squat = JObject [(''feedback'', JString ''Good range of motion''),
                    (''recommendedExercise'', JString ''Squat''),
                    (''rationale'', JString ''Build strength''),
                    (''additionalAdvice'', JString ''Rest between sets''),
                    (''confidence'', JNumber (9 / 10))]"

definition with_recommendation :: dashboard where
  "with_recommendation = idle_dashboard\<lparr>recommendations := [squat]\<rparr>"









section \<open>Properties\<close>

lemmas handler_defs =
  handleStartExercise_def start_try_def start_catch_def
  handleCompleteExercise_def complete_try_def reconcile_def
  stopRecording_def recordingStarted_def

lemma start_slot_unchanged:
  "\<not> steps_succeeded io \<Longrightarrow> slot (fst (handleStartExercise io now exercise s)) = slot s"
  by (auto simp: handler_defs steps_succeeded_def slot_def Let_def split: sum.splits)

lemma start_slot_populated:
  "start_accepted s \<Longrightarrow> steps_succeeded io \<Longrightarrow>
   slot (fst (handleStartExercise io now exercise s))
     = (Some (id exercise), Some (projr (createProgress_result io)))"
  by (auto simp: handler_defs steps_succeeded_def start_accepted_def slot_def Let_def split: sum.splits)

lemma start_paired: "slot_paired s \<Longrightarrow> slot_paired (fst (handleStartExercise io now exercise s))"
  by (auto simp: handler_defs slot_paired_def Let_def split: sum.splits)

lemma complete_paired: "slot_paired s \<Longrightarrow> slot_paired (fst (handleCompleteExercise io now s))"
  by (auto simp: handler_defs slot_paired_def Let_def split: sum.splits)

lemma reconcile_paired: "slot_paired s \<Longrightarrow> slot_paired (fst (reconcile s))"
  by (auto simp: handler_defs slot_paired_def Let_def split: option.splits)

lemma fetch_paired: "slot_paired s \<Longrightarrow> slot_paired (fst (fetchNetworkRecommendation r s))"
  by (auto simp: fetchNetworkRecommendation_def slot_paired_def Let_def split: option.splits advisory_result.splits)

lemma step_paired:
  assumes "slot_paired s"
  shows "slot_paired (step e s)"
proof (cases e)
  case (Start_request io now exercise)
  with assms show ?thesis by (simp add: start_paired)
next
  case (Stop_request io now)
  with assms show ?thesis by (simp add: complete_paired)
next
  case (Exercises_update exercises)
  with assms show ?thesis by (simp add: onExercisesSnapshot_def slot_paired_def)
next
  case Effect_run
  with assms show ?thesis by (simp add: reconcile_paired)
next
  case (Recommendations_update docs)
  with assms show ?thesis by (simp add: onRecommendationsSnapshot_def slot_paired_def)
next
  case (Fetch_run r)
  with assms show ?thesis by (simp add: fetch_paired)
next
  case (Device_report c rec)
  with assms show ?thesis by (simp add: slot_paired_def)
next
  case (Profile_change p)
  with assms show ?thesis by (simp add: slot_paired_def)
qed

lemma run_paired: "slot_paired s \<Longrightarrow> slot_paired (run events s)"
  unfolding run_def by (induction events arbitrary: s) (simp_all add: step_paired)

lemma initial_paired: "initial s \<Longrightarrow> slot_paired s"
  by (simp add: initial_def slot_paired_def)

lemma start_commands:
  "start_accepted s \<Longrightarrow> steps_succeeded io \<Longrightarrow>
   snd (handleStartExercise io now exercise s)
     = [StartRecording (exerciseId exercise),
        UpdateAssignedExercise (the (userProfile s)) (id exercise)
          \<lparr>new_status = In_progress, new_completedAt = None\<rparr>,
        CreateExerciseProgress (the (userProfile s)) (the (userProfile s))
          (exerciseId exercise) (id exercise) now,
        Toast (toast_started exercise)]"
  by (auto simp: handler_defs steps_succeeded_def start_accepted_def Let_def split: sum.splits)

lemma start_rejected:
  assumes "\<not> connected s \<or> truthy (activeAssignmentId s) \<or> sessionLoading s"
  shows "handleStartExercise io now exercise s =
           (s, if truthy (userProfile s)
               then [Toast (if \<not> connected s then toast_not_connected else toast_busy)]
               else [])"
  using assms by (auto simp: handleStartExercise_def)

text \<open>
  Claim C1. In every reachable state the session slot holds no pair or one complete pair:
  the two identifiers are null together or set together, and a start request that finds
  the slot occupied leaves the pair that is there. A start request populates the slot
  only when the device-recording start, the status write and the creation of the
  progress record all succeeded, in that order, and it leaves the slot as it was when
  any of them failed.
\<close>

theorem single_session_slot:
  "(initial s \<longrightarrow> slot_paired (run events s))
   \<and> (truthy (activeAssignmentId s') \<longrightarrow>
        slot (fst (handleStartExercise io now exercise s')) = slot s')
   \<and> (\<not> steps_succeeded io \<longrightarrow>
        slot (fst (handleStartExercise io now exercise s')) = slot s')
   \<and> (start_accepted s' \<and> steps_succeeded io \<longrightarrow>
        slot (fst (handleStartExercise io now exercise s'))
          = (Some (id exercise), Some (projr (createProgress_result io)))
        \<and> snd (handleStartExercise io now exercise s')
          = [StartRecording (exerciseId exercise),
             UpdateAssignedExercise (the (userProfile s')) (id exercise)
               \<lparr>new_status = In_progress, new_completedAt = None\<rparr>,
             CreateExerciseProgress (the (userProfile s')) (the (userProfile s'))
               (exerciseId exercise) (id exercise) now,
             Toast (toast_started exercise)])"
proof -
  have "truthy (activeAssignmentId s') \<Longrightarrow>
        slot (fst (handleStartExercise io now exercise s')) = slot s'"
    by (simp add: start_rejected)
  then show ?thesis
    using run_paired [OF initial_paired, of s events]
      start_slot_unchanged start_slot_populated start_commands
    by blast
qed

lemma fresh_initial: "initial fresh_dashboard"
  by (simp add: initial_def fresh_dashboard_def)

lemma active_run:
  "run [Exercises_update [knee_extension], Start_request all_ok 100 knee_extension]
     fresh_dashboard = active_dashboard"
  by (simp add: run_def active_dashboard_def idle_dashboard_def)

lemma idle_accepted: "start_accepted idle_dashboard"
  by (simp add: start_accepted_def idle_dashboard_def onExercisesSnapshot_def
      fresh_dashboard_def truthy_def)

lemma all_ok_succeeded: "steps_succeeded all_ok"
  by (simp add: steps_succeeded_def all_ok_def)

theorem single_session_slot_witness:
  "initial fresh_dashboard
   \<and> run [Exercises_update [knee_extension], Start_request all_ok 100 knee_extension]
        fresh_dashboard = active_dashboard
   \<and> slot_paired active_dashboard
   \<and> start_accepted idle_dashboard \<and> steps_succeeded all_ok
   \<and> slot active_dashboard = (Some ''E1'', Some ''P1'')
   \<and> truthy (activeAssignmentId active_dashboard)
   \<and> slot (fst (handleStartExercise all_ok 300 knee_extension active_dashboard))
       = (Some ''E1'', Some ''P1'')
   \<and> \<not> steps_succeeded (all_ok\<lparr>markInProgress_result := Inl ''denied''\<rparr>)
   \<and> slot (fst (handleStartExercise (all_ok\<lparr>markInProgress_result := Inl ''denied''\<rparr>)
                  100 knee_extension idle_dashboard)) = (None, None)"
  using single_session_slot
          [of fresh_dashboard
              "[Exercises_update [knee_extension], Start_request all_ok 100 knee_extension]"
              idle_dashboard all_ok 100 knee_extension]
    single_session_slot
      [of fresh_dashboard "[]" idle_dashboard
          "all_ok\<lparr>markInProgress_result := Inl ''denied''\<rparr>" 100 knee_extension]
    single_session_slot [of fresh_dashboard "[]" active_dashboard all_ok 300 knee_extension]
    fresh_initial active_run idle_accepted all_ok_succeeded
  by (simp add: active_dashboard_def steps_succeeded_def all_ok_def knee_extension_def
      slot_def idle_dashboard_def onExercisesSnapshot_def fresh_dashboard_def truthy_def
      handler_defs Let_def)

text \<open>
  Claim C2. A start request made while the device is not connected, while the slot is
  occupied (the identifier is neither null nor empty, the test the handler makes), or while
  \<^verbatim>\<open>sessionLoading\<close> is set, is turned down before any side effect: the state is returned
  as it was, no command goes to the device or to the store, and with a signed-in profile
  the only thing issued is the notice naming the violated precondition.
\<close>

theorem start_rejected_without_effect:
  assumes "\<not> connected s \<or> truthy (activeAssignmentId s) \<or> sessionLoading s"
  shows "fst (handleStartExercise io now exercise s) = s
         \<and> filter device_or_store (snd (handleStartExercise io now exercise s)) = []
         \<and> (truthy (userProfile s) \<longrightarrow>
              snd (handleStartExercise io now exercise s)
                = [Toast (if \<not> connected s then toast_not_connected else toast_busy)])"
  by (simp add: start_rejected [OF assms])

lemma active_dashboard_eq:
  "active_dashboard =
     \<lparr>userProfile = Some ''patient-1'', assignedExercises = [knee_extension],
      recommendations = [], loadingExercises = False, loadingRecommendations = True,
      sessionLoading = False, activeAssignmentId = Some ''E1'',
      activeProgressId = Some ''P1'', connected = True, isRecording = True\<rparr>"
  by (simp add: active_dashboard_def idle_dashboard_def onExercisesSnapshot_def
      fresh_dashboard_def all_ok_def knee_extension_def handler_defs truthy_def Let_def)

lemma idle_dashboard_eq:
  "idle_dashboard =
     \<lparr>userProfile = Some ''patient-1'', assignedExercises = [knee_extension],
      recommendations = [], loadingExercises = False, loadingRecommendations = True,
      sessionLoading = False, activeAssignmentId = None,
      activeProgressId = None, connected = True, isRecording = False\<rparr>"
  by (simp add: idle_dashboard_def onExercisesSnapshot_def fresh_dashboard_def)

theorem start_rejected_without_effect_witness:
  "\<not> connected (idle_dashboard\<lparr>connected := False\<rparr>)
   \<and> handleStartExercise all_ok 100 knee_extension (idle_dashboard\<lparr>connected := False\<rparr>)
       = (idle_dashboard\<lparr>connected := False\<rparr>, [Toast toast_not_connected])
   \<and> truthy (activeAssignmentId active_dashboard)
   \<and> handleStartExercise all_ok 100 knee_extension active_dashboard
       = (active_dashboard, [Toast toast_busy])
   \<and> sessionLoading (idle_dashboard\<lparr>sessionLoading := True\<rparr>)
   \<and> handleStartExercise all_ok 100 knee_extension (idle_dashboard\<lparr>sessionLoading := True\<rparr>)
       = (idle_dashboard\<lparr>sessionLoading := True\<rparr>, [Toast toast_busy])"
  using start_rejected_without_effect
          [of "idle_dashboard\<lparr>connected := False\<rparr>" all_ok 100 knee_extension]
        start_rejected_without_effect [of active_dashboard all_ok 100 knee_extension]
        start_rejected_without_effect
          [of "idle_dashboard\<lparr>sessionLoading := True\<rparr>" all_ok 100 knee_extension]
  by (simp add: active_dashboard_eq idle_dashboard_eq truthy_def prod_eq_iff)

text \<open>
  Claim C3, as amended. A stop request made while a session is active always stops the
  device recording and then issues the assignment write with \<^verbatim>\<open>status = completed\<close> and
  \<^verbatim>\<open>completedAt = now\<close>. The write to the progress record (completed, with
  \<^verbatim>\<open>sessionEndTime\<close> and \<^verbatim>\<open>completedAt\<close>) is issued exactly when the assignment write
  succeeded and a progress identifier exists. These are all the commands that reach the
  device and the store.
\<close>

theorem complete_sequence_steps:
  assumes "truthy (userProfile s)" "truthy (activeAssignmentId s)"
  shows "filter device_or_store (snd (handleCompleteExercise io now s))
           = [StopRecording,
              UpdateAssignedExercise (the (userProfile s)) (the (activeAssignmentId s))
                \<lparr>new_status = Completed, new_completedAt = Some now\<rparr>]
             @ (if \<not> isl (completeAssignment_result io) \<and> truthy (activeProgressId s)
                then [UpdateExerciseProgress (the (userProfile s)) (the (activeProgressId s))
                        Completed now now]
                else [])"
  using assms
  by (auto simp: handleCompleteExercise_def complete_try_def Let_def split: sum.splits)

theorem complete_sequence_steps_witness:
  "truthy (userProfile active_dashboard) \<and> truthy (activeAssignmentId active_dashboard)
   \<and> filter device_or_store (snd (handleCompleteExercise writes_ok 200 active_dashboard))
       = [StopRecording,
          UpdateAssignedExercise ''patient-1'' ''E1''
            \<lparr>new_status = Completed, new_completedAt = Some 200\<rparr>,
          UpdateExerciseProgress ''patient-1'' ''P1'' Completed 200 200]"
  using complete_sequence_steps [of active_dashboard writes_ok 200]
  by (simp add: active_dashboard_eq truthy_def writes_ok_def)

text \<open>
  The claim as first stated fails: with an active session and a progress identifier, a
  rejected assignment write ends the \<^verbatim>\<open>try\<close> block, and the progress record is not
  written.
\<close>

theorem complete_sequence_steps_counterexample:
  "truthy (activeAssignmentId active_dashboard) \<and> truthy (activeProgressId active_dashboard)
   \<and> snd (handleCompleteExercise assignment_write_fails 200 active_dashboard)
       = [StopRecording,
          UpdateAssignedExercise ''patient-1'' ''E1''
            \<lparr>new_status = Completed, new_completedAt = Some 200\<rparr>,
          ConsoleError ''Error completing exercise:'',
          Toast (toast_complete_failed ''unavailable'')]"
  by (simp add: active_dashboard_eq truthy_def assignment_write_fails_def
      handleCompleteExercise_def complete_try_def stopRecording_def Let_def)

lemma start_device_failure_commands:
  assumes "start_accepted s" "isl (startRecording_result io)"
  shows "filter device_or_store (snd (handleStartExercise io now exercise s))
           = [StartRecording (exerciseId exercise), StopRecording,
              UpdateAssignedExercise (the (userProfile s)) (id exercise)
                \<lparr>new_status = status exercise, new_completedAt = None\<rparr>]"
  using assms
  by (auto simp: handleStartExercise_def start_try_def start_catch_def start_accepted_def
      Let_def split: sum.splits)

lemma start_device_failure_state:
  assumes "start_accepted s" "isl (startRecording_result io)"
  shows "fst (handleStartExercise io now exercise s) = s\<lparr>isRecording := False\<rparr>"
  using assms
  by (auto simp: handleStartExercise_def start_try_def start_catch_def start_accepted_def
      stopRecording_def Let_def split: sum.splits)

text \<open>
  Claim C4, as amended. When an accepted start request finds the device-recording start
  failing, neither the \<^verbatim>\<open>in_progress\<close> write nor the creation of a progress record is
  issued. The handler stops the device and issues one write that puts back the status the
  assignment had, and the state it returns differs from the state before the request in
  the recording flag at most: the slot and the busy flag are as they were.
\<close>

theorem start_device_failure:
  assumes "start_accepted s" "isl (startRecording_result io)"
  shows "filter device_or_store (snd (handleStartExercise io now exercise s))
           = [StartRecording (exerciseId exercise), StopRecording,
              UpdateAssignedExercise (the (userProfile s)) (id exercise)
                \<lparr>new_status = status exercise, new_completedAt = None\<rparr>]
         \<and> fst (handleStartExercise io now exercise s) = s\<lparr>isRecording := False\<rparr>"
  using start_device_failure_commands [OF assms] start_device_failure_state [OF assms]
  by simp

theorem start_device_failure_witness:
  "start_accepted idle_dashboard \<and> isl (startRecording_result recording_fails)
   \<and> filter device_or_store
        (snd (handleStartExercise recording_fails 100 knee_extension idle_dashboard))
       = [StartRecording ''knee-extension'', StopRecording,
          UpdateAssignedExercise ''patient-1'' ''E1''
            \<lparr>new_status = Assigned, new_completedAt = None\<rparr>]
   \<and> fst (handleStartExercise recording_fails 100 knee_extension idle_dashboard)
       = idle_dashboard"
  using start_device_failure [of idle_dashboard recording_fails 100 knee_extension]
    idle_accepted
  by (simp add: recording_fails_def all_ok_def idle_dashboard_eq knee_extension_def)

text \<open>
  The claim as first stated fails: after a failed device-recording start the \<^verbatim>\<open>catch\<close>
  block still writes to the store.
\<close>

theorem start_device_failure_counterexample:
  "start_accepted idle_dashboard \<and> startRecording_result recording_fails = Inl ''port closed''
   \<and> snd (handleStartExercise recording_fails 100 knee_extension idle_dashboard)
       = [StartRecording ''knee-extension'',
          ConsoleError ''Error starting exercise:'',
          StopRecording,
          UpdateAssignedExercise ''patient-1'' ''E1''
            \<lparr>new_status = Assigned, new_completedAt = None\<rparr>,
          Toast (toast_start_failed ''port closed'')]"
  using idle_accepted
  by (simp add: recording_fails_def all_ok_def idle_dashboard_eq knee_extension_def
      handleStartExercise_def start_try_def start_catch_def truthy_def Let_def)

lemma complete_state:
  assumes "truthy (userProfile s)" "truthy (activeAssignmentId s)"
  shows "fst (handleCompleteExercise io now s)
           = s\<lparr>activeAssignmentId := None, activeProgressId := None,
               sessionLoading := False, isRecording := False\<rparr>"
  using assms
  by (auto simp: handleCompleteExercise_def complete_try_def stopRecording_def Let_def
      split: sum.splits)

text \<open>
  Claim C5. A stop sequence, which runs when there is a profile and the slot is occupied,
  ends with both identifiers null and the busy flag clear whatever the outcomes of its two
  writes, so with the device connected the next start request is accepted and, when its
  own steps succeed, occupies the slot.
\<close>

theorem complete_clears_slot:
  assumes "truthy (userProfile s)" "truthy (activeAssignmentId s)"
  shows "slot (fst (handleCompleteExercise io now s)) = (None, None)
         \<and> \<not> sessionLoading (fst (handleCompleteExercise io now s))
         \<and> (connected s \<longrightarrow> start_accepted (fst (handleCompleteExercise io now s)))
         \<and> (connected s \<and> steps_succeeded io' \<longrightarrow>
              slot (fst (handleStartExercise io' now' exercise
                           (fst (handleCompleteExercise io now s))))
                = (Some (id exercise), Some (projr (createProgress_result io'))))"
proof -
  let ?s' = "fst (handleCompleteExercise io now s)"
  have st: "?s' = s\<lparr>activeAssignmentId := None, activeProgressId := None,
                     sessionLoading := False, isRecording := False\<rparr>"
    by (rule complete_state [OF assms])
  have acc: "connected s \<Longrightarrow> start_accepted ?s'"
    using assms(1) by (simp add: st start_accepted_def truthy_def)
  show ?thesis
    using acc start_slot_populated [of ?s' io' now' exercise]
    by (auto simp: st slot_def)
qed

theorem complete_clears_slot_witness:
  "truthy (userProfile active_dashboard) \<and> truthy (activeAssignmentId active_dashboard)
   \<and> connected active_dashboard \<and> steps_succeeded all_ok
   \<and> slot (fst (handleCompleteExercise assignment_write_fails 200 active_dashboard))
       = (None, None)
   \<and> slot (fst (handleStartExercise all_ok 300 knee_extension
                  (fst (handleCompleteExercise assignment_write_fails 200 active_dashboard))))
       = (Some ''E1'', Some ''P1'')"
  using complete_clears_slot
          [of active_dashboard assignment_write_fails 200 all_ok 300 knee_extension]
        all_ok_succeeded
  by (simp add: active_dashboard_eq truthy_def all_ok_def knee_extension_def)

lemma find_by_id:
  "distinct (map id exercises) \<Longrightarrow> ex \<in> set exercises \<Longrightarrow>
   find (\<lambda>e. id e = id ex) exercises = Some ex"
  by (induction exercises) (auto simp: rev_image_eqI)

text \<open>
  Claim C6. When the slot is occupied and the list of assigned exercises, whose
  identifiers are distinct, shows the active assignment as completed, the reconciliation
  effect issues the stop of the device recording and nothing else, and the state it
  leaves is the state before with the two identifiers null and the recording flag clear.
\<close>

theorem reconcile_forces_idle:
  assumes "truthy (activeAssignmentId s)"
    and "distinct (map id (assignedExercises s))"
    and "ex \<in> set (assignedExercises s)"
    and "Some (id ex) = activeAssignmentId s"
    and "status ex = Completed"
  shows "reconcile s =
           (s\<lparr>activeAssignmentId := None, activeProgressId := None, isRecording := False\<rparr>,
            [StopRecording])"
proof -
  have "find (\<lambda>e. id e = the (activeAssignmentId s)) (assignedExercises s) = Some ex"
    using find_by_id [OF assms(2,3)] assms(4) by (metis option.sel)
  then show ?thesis
    using assms(1,5) by (simp add: reconcile_def stopRecording_def)
qed

lemma completed_by_backend_eq:
  "completed_by_backend =
     \<lparr>userProfile = Some ''patient-1'',
      assignedExercises = [knee_extension\<lparr>status := Completed\<rparr>],
      recommendations = [], loadingExercises = False, loadingRecommendations = True,
      sessionLoading = False, activeAssignmentId = Some ''E1'',
      activeProgressId = Some ''P1'', connected = True, isRecording = True\<rparr>"
  by (simp add: completed_by_backend_def active_dashboard_eq onExercisesSnapshot_def)

theorem reconcile_forces_idle_witness:
  "truthy (activeAssignmentId completed_by_backend)
   \<and> distinct (map id (assignedExercises completed_by_backend))
   \<and> knee_extension\<lparr>status := Completed\<rparr> \<in> set (assignedExercises completed_by_backend)
   \<and> Some (id (knee_extension\<lparr>status := Completed\<rparr>)) = activeAssignmentId completed_by_backend
   \<and> status (knee_extension\<lparr>status := Completed\<rparr>) = Completed
   \<and> reconcile completed_by_backend =
       (completed_by_backend\<lparr>activeAssignmentId := None, activeProgressId := None,
                             isRecording := False\<rparr>, [StopRecording])"
  using reconcile_forces_idle
          [of completed_by_backend "knee_extension\<lparr>status := Completed\<rparr>"]
  by (simp add: completed_by_backend_eq truthy_def knee_extension_def)

lemma reconcile_empty: "\<not> truthy (activeAssignmentId s) \<Longrightarrow> reconcile s = (s, [])"
  by (simp add: reconcile_def)

lemma reconcile_cases:
  "reconcile s = (s, []) \<or> activeAssignmentId (fst (reconcile s)) = None"
  by (auto simp: reconcile_def stopRecording_def split: option.splits)

text \<open>
  Claim C7. With an empty slot the reconciliation effect changes nothing and issues
  nothing; and running it a second time, whatever the first run did, changes nothing and
  issues nothing.
\<close>

theorem reconcile_idempotent:
  "(activeAssignmentId s = None \<longrightarrow> reconcile s = (s, []))
   \<and> reconcile (fst (reconcile s)) = (fst (reconcile s), [])"
proof -
  have a: "activeAssignmentId s = None \<Longrightarrow> reconcile s = (s, [])" for s
    by (rule reconcile_empty) (simp add: truthy_def)
  have "reconcile (fst (reconcile s)) = (fst (reconcile s), [])"
    using reconcile_cases [of s] a [of "fst (reconcile s)"] by auto
  with a show ?thesis by blast
qed

theorem reconcile_idempotent_witness:
  "activeAssignmentId idle_dashboard = None
   \<and> reconcile idle_dashboard = (idle_dashboard, [])
   \<and> snd (reconcile completed_by_backend) = [StopRecording]
   \<and> reconcile (fst (reconcile completed_by_backend)) = (fst (reconcile completed_by_backend), [])"
  using reconcile_idempotent [of idle_dashboard] reconcile_idempotent [of completed_by_backend]
  by (simp add: idle_dashboard_eq completed_by_backend_eq reconcile_def truthy_def
      knee_extension_def)

lemma fetch_failed_run:
  "failed_run r \<Longrightarrow>
   recommendations (fst (fetchNetworkRecommendation r s)) = recommendations s"
  by (cases r) (auto simp: fetchNetworkRecommendation_def Let_def split: option.splits)

lemma fetch_array:
  "userProfile s \<noteq> None \<Longrightarrow> member d ''recommendations'' = Some (JArray xs) \<Longrightarrow>
   recommendations (fst (fetchNetworkRecommendation (Fetch_response True (Some d)) s)) = xs"
  by (auto simp: fetchNetworkRecommendation_def truthy_member_def Let_def)

lemma fetch_single:
  "userProfile s \<noteq> None \<Longrightarrow> \<not> isArray (member d ''recommendations'') \<Longrightarrow>
   truthy_member d ''recommendedExercise'' \<Longrightarrow>
   recommendations (fst (fetchNetworkRecommendation (Fetch_response True (Some d)) s)) = [d]"
  by (auto simp: fetchNetworkRecommendation_def Let_def)

lemma fetch_other:
  "\<not> isArray (member d ''recommendations'') \<Longrightarrow>
   \<not> truthy_member d ''recommendedExercise'' \<Longrightarrow>
   recommendations (fst (fetchNetworkRecommendation (Fetch_response True (Some d)) s))
     = recommendations s"
  by (auto simp: fetchNetworkRecommendation_def Let_def split: option.splits)

text \<open>
  Claim C8. A run of the recommendation fetcher whose request is rejected, whose response
  is not \<^verbatim>\<open>ok\<close>, or whose body is not JSON leaves the list of recommendations as it was; the
  handler catches every rejection, so the embedding is a total function. On an \<^verbatim>\<open>ok\<close>
  response with a JSON body, a \<^verbatim>\<open>recommendations\<close> array replaces the list; otherwise a body
  with a truthy \<^verbatim>\<open>recommendedExercise\<close> becomes the only element of the list; otherwise the
  list is as it was.
\<close>

theorem fetch_normalises_response:
  "(failed_run r \<longrightarrow>
      recommendations (fst (fetchNetworkRecommendation r s)) = recommendations s)
   \<and> (userProfile s \<noteq> None \<and> member d ''recommendations'' = Some (JArray xs) \<longrightarrow>
        recommendations (fst (fetchNetworkRecommendation (Fetch_response True (Some d)) s))
          = xs)
   \<and> (userProfile s \<noteq> None \<and> \<not> isArray (member d ''recommendations'')
        \<and> truthy_member d ''recommendedExercise'' \<longrightarrow>
        recommendations (fst (fetchNetworkRecommendation (Fetch_response True (Some d)) s))
          = [d])
   \<and> (\<not> isArray (member d ''recommendations'')
        \<and> \<not> truthy_member d ''recommendedExercise'' \<longrightarrow>
        recommendations (fst (fetchNetworkRecommendation (Fetch_response True (Some d)) s))
          = recommendations s)"
  using fetch_failed_run fetch_array fetch_single fetch_other by blast

theorem fetch_normalises_response_witness:
  "failed_run (Fetch_response False None)
   \<and> recommendations (fst (fetchNetworkRecommendation (Fetch_response False None)
                              with_recommendation)) = [squat]
   \<and> userProfile idle_dashboard \<noteq> None
   \<and> member (JObject [(''recommendations'', JArray [squat, squat])]) ''recommendations''
       = Some (JArray [squat, squat])
   \<and> recommendations
        (fst (fetchNetworkRecommendation
                (Fetch_response True (Some (JObject [(''recommendations'', JArray [squat, squat])])))
                idle_dashboard)) = [squat, squat]
   \<and> \<not> isArray (member squat ''recommendations'')
   \<and> truthy_member squat ''recommendedExercise''
   \<and> recommendations
        (fst (fetchNetworkRecommendation (Fetch_response True (Some squat)) idle_dashboard))
       = [squat]
   \<and> \<not> isArray (member (JString ''ok'') ''recommendations'')
   \<and> \<not> truthy_member (JString ''ok'') ''recommendedExercise''
   \<and> recommendations
        (fst (fetchNetworkRecommendation (Fetch_response True (Some (JString ''ok'')))
                with_recommendation)) = [squat]"
  using fetch_normalises_response
          [of "Fetch_response False None" with_recommendation
              "JObject [(''recommendations'', JArray [squat, squat])]" "[squat, squat]"]
        fetch_normalises_response
          [of "Fetch_response False None" idle_dashboard
              "JObject [(''recommendations'', JArray [squat, squat])]" "[squat, squat]"]
        fetch_normalises_response [of "Fetch_response False None" idle_dashboard squat "[]"]
        fetch_normalises_response
          [of "Fetch_response False None" with_recommendation "JString ''ok''" "[]"]
  by (simp add: with_recommendation_def idle_dashboard_eq truthy_member_def squat_def)










lemma start_releases_flag:
  "start_accepted s \<or> \<not> sessionLoading s \<Longrightarrow>
   \<not> sessionLoading (fst (handleStartExercise io now exercise s))"
  by (auto simp: handleStartExercise_def start_try_def start_catch_def start_accepted_def
      stopRecording_def recordingStarted_def Let_def split: sum.splits)

lemma complete_releases_flag:
  "(truthy (userProfile s) \<and> truthy (activeAssignmentId s)) \<or> \<not> sessionLoading s \<Longrightarrow>
   \<not> sessionLoading (fst (handleCompleteExercise cio now s))"
  by (auto simp: handleCompleteExercise_def complete_try_def stopRecording_def Let_def
      split: sum.splits)

lemma reconcile_flag: "sessionLoading (fst (reconcile s)) = sessionLoading s"
  by (auto simp: reconcile_def stopRecording_def split: option.splits)

lemma fetch_flag: "sessionLoading (fst (fetchNetworkRecommendation r s)) = sessionLoading s"
  by (cases r) (auto simp: fetchNetworkRecommendation_def Let_def split: option.splits)

lemma step_not_loading:
  assumes "\<not> sessionLoading s"
  shows "\<not> sessionLoading (step e s)"
proof (cases e)
  case (Start_request io now exercise)
  with assms show ?thesis by (simp add: start_releases_flag)
next
  case (Stop_request io now)
  with assms show ?thesis by (simp add: complete_releases_flag)
next
  case (Exercises_update exercises)
  with assms show ?thesis by (simp add: onExercisesSnapshot_def)
next
  case Effect_run
  with assms show ?thesis by (simp add: reconcile_flag)
next
  case (Recommendations_update docs)
  with assms show ?thesis by (simp add: onRecommendationsSnapshot_def)
next
  case (Fetch_run r)
  with assms show ?thesis by (simp add: fetch_flag)
next
  case (Device_report c rec)
  with assms show ?thesis by simp
next
  case (Profile_change p)
  with assms show ?thesis by simp
qed

lemma run_not_loading: "\<not> sessionLoading s \<Longrightarrow> \<not> sessionLoading (run events s)"
  unfolding run_def by (induction events arbitrary: s) (simp_all add: step_not_loading)

text \<open>
  Claim C10. An accepted start sequence and a stop sequence both end with
  \<^verbatim>\<open>sessionLoading\<close> false, whatever the outcomes of their steps, and no reachable state has
  the flag set.
\<close>

theorem busy_flag_released:
  "(start_accepted s \<longrightarrow> \<not> sessionLoading (fst (handleStartExercise io now exercise s)))
   \<and> (truthy (userProfile s) \<and> truthy (activeAssignmentId s) \<longrightarrow>
        \<not> sessionLoading (fst (handleCompleteExercise cio now' s)))
   \<and> (initial s' \<longrightarrow> \<not> sessionLoading (run events s'))"
  using start_releases_flag [of s io now exercise] complete_releases_flag [of s cio now']
    run_not_loading [of s' events]
  by (auto simp: initial_def)

theorem busy_flag_released_witness:
  "start_accepted idle_dashboard
   \<and> \<not> sessionLoading (fst (handleStartExercise recording_fails 100 knee_extension idle_dashboard))
   \<and> truthy (userProfile active_dashboard) \<and> truthy (activeAssignmentId active_dashboard)
   \<and> \<not> sessionLoading (fst (handleCompleteExercise assignment_write_fails 200 active_dashboard))
   \<and> initial fresh_dashboard
   \<and> \<not> sessionLoading
          (run [Exercises_update [knee_extension], Start_request recording_fails 100 knee_extension]
             fresh_dashboard)"
  using busy_flag_released
          [of idle_dashboard recording_fails 100 knee_extension writes_ok 200 fresh_dashboard
              "[Exercises_update [knee_extension],
                Start_request recording_fails 100 knee_extension]"]
    busy_flag_released
          [of active_dashboard all_ok 100 knee_extension assignment_write_fails 200
              fresh_dashboard "[]"]
    idle_accepted fresh_initial
  by (simp add: active_dashboard_eq truthy_def)

end
